theory Spec2Isabelle
  imports Main "HOL-Library.Sublist"
begin

section \<open>Values, errors and string rendering\<close>

text \<open>
  The JavaScript values that travel through the helpers: request-body fields and
  query parameters. Numbers are the integers the routes work with (ids, salaries);
  NaN and fractions are outside the model.
\<close>

datatype jsval = JStr string | JNum int | JBool bool | JNull

text \<open>
  What the models throw: the error classes of \<open>expressError.js\<close> that the sources
  under study use, and the error with which \<open>db.query\<close> rejects when the store refuses
  a statement; each with its message.
\<close>

datatype error = BadRequestError string | NotFoundError string | DatabaseError string

definition digit :: "nat \<Rightarrow> char" where
  "digit d = ''0123456789'' ! d"

text \<open>How a template literal renders a number: its decimal digits.\<close>

fun decimal :: "nat \<Rightarrow> string" where
  "decimal n = (let d = [digit (n mod 10)] in if n div 10 = 0 then d else decimal (n div 10) @ d)"

declare decimal.simps [simp del]

definition render_int :: "int \<Rightarrow> string" where
  "render_int i = (if 0 \<le> i then decimal (nat i) else CHR ''-'' # decimal (nat (- i)))"

text \<open>\<open>Array.prototype.join\<close>.\<close>

fun join :: "string \<Rightarrow> string list \<Rightarrow> string" where
  "join sep [] = []"
| "join sep [x] = x"
| "join sep (x # y # ys) = x @ sep @ join sep (y # ys)"

text \<open>\<open>Array.prototype.map\<close> with the callback's index argument, counted from \<open>i\<close>.\<close>

fun mapIdx :: "('a \<Rightarrow> nat \<Rightarrow> 'b) \<Rightarrow> nat \<Rightarrow> 'a list \<Rightarrow> 'b list" where
  "mapIdx f i [] = []"
| "mapIdx f i (x # xs) = f x i # mapIdx f (Suc i) xs"


section \<open>helpers/subset.js\<close>

text \<open>\<open>Array.prototype.indexOf\<close>: the first position of the element, or \<open>-1\<close>.\<close>

fun indexOf :: "int list \<Rightarrow> int \<Rightarrow> int" where
  "indexOf [] x = - 1"
| "indexOf (y # ys) x =
     (if y = x then 0 else (let r = indexOf ys x in if r = - 1 then - 1 else r + 1))"

text \<open>The \<open>for ... of\<close> loop of \<open>isSubset\<close>, leaving at the first element not found.\<close>

fun isSubset_loop :: "int list \<Rightarrow> int list \<Rightarrow> bool" where
  "isSubset_loop [] arr2 = True"
| "isSubset_loop (i # rest) arr2 =
     (if indexOf arr2 i = - 1 then False else isSubset_loop rest arr2)"

definition isSubset :: "int list \<Rightarrow> int list \<Rightarrow> bool" where
  "isSubset arr1 arr2 =
     (if length arr2 = 0 then False
      else if length arr1 = 0 then True
      else isSubset_loop arr1 arr2)"


section \<open>helpers/sql.js\<close>

text \<open>
  \<open>dataToUpdate\<close> is the object as \<open>Object.keys\<close> and \<open>Object.values\<close> enumerate it: the
  list of its own (key, value) pairs in enumeration order. \<open>jsToSql\<close> is the table of
  the entries the object literal holds itself.
\<close>

record update_sql =
  setCols :: string
  vals :: "jsval list"

text \<open>
  \<open>jsToSql[colName]\<close> is a plain property read: when the object has no entry of its own
  under the name, the read goes on to \<open>Object.prototype\<close>. The table below gives, for
  each name found there, the text with which a template literal renders the inherited
  value: the native functions, and the prototype object itself under \<open>__proto__\<close>.
\<close>

definition object_prototype :: "string \<rightharpoonup> string" where
  "object_prototype k =
     (if k = ''constructor'' then Some ''function Object() { [native code] }''
      else if k = ''__proto__'' then Some ''[object Object]''
      else if k \<in> set [''__defineGetter__'', ''__defineSetter__'', ''hasOwnProperty'',
                          ''__lookupGetter__'', ''__lookupSetter__'', ''isPrototypeOf'',
                          ''propertyIsEnumerable'', ''toString'', ''valueOf'', ''toLocaleString'']
      then Some (''function '' @ k @ ''() { [native code] }'')
      else None)"

text \<open>
  \<open>jsToSql[colName] || colName\<close>: an own entry that is the empty string is falsy, every
  inherited value is truthy, and a name found nowhere reads \<open>undefined\<close>.
\<close>

definition colFor :: "(string \<rightharpoonup> string) \<Rightarrow> string \<Rightarrow> string" where
  "colFor jsToSql colName =
     (case jsToSql colName of
        Some c \<Rightarrow> if c = [] then colName else c
      | None \<Rightarrow>
          (case object_prototype colName of
             Some inherited \<Rightarrow> inherited
           | None \<Rightarrow> colName))"

definition colAssign :: "(string \<rightharpoonup> string) \<Rightarrow> string \<Rightarrow> nat \<Rightarrow> string" where
  "colAssign jsToSql colName idx =
     ''\"'' @ colFor jsToSql colName @ ''\"=$'' @ decimal (idx + 1)"

definition sqlForPartialUpdate ::
  "(string \<times> jsval) list \<Rightarrow> (string \<rightharpoonup> string) \<Rightarrow> error + update_sql" where
  "sqlForPartialUpdate dataToUpdate jsToSql =
     (let keys = map fst dataToUpdate in
      if length keys = 0 then Inl (BadRequestError ''No data'')
      else
        let cols = mapIdx (colAssign jsToSql) 0 keys
        in Inr \<lparr>setCols = join '', '' cols, vals = map snd dataToUpdate\<rparr>)"


section \<open>The search filters of Job.findAll and Technology.findAll\<close>

text \<open>
  The search filter of \<open>Job.findAll\<close> after destructuring: each key is absent
  (\<open>undefined\<close>) or carries a value of the type the route's schema admits. The tests
  \<open>if (title)\<close>, \<open>if (minSalary)\<close>, \<open>if (hasEquity)\<close> are JavaScript truthiness: an
  absent key, the empty string, the number zero and \<open>false\<close> are falsy.
\<close>

record job_filter =
  title :: "string option"
  minSalary :: "int option"
  hasEquity :: "bool option"

text \<open>
  The three guarded blocks of \<open>Job.findAll\<close>, threading \<open>searchQueries\<close>, \<open>values\<close> and
  \<open>idx\<close>; the result is the two arrays as they stand before the \<open>WHERE\<close> is put in
  front.
\<close>

definition Job_findAll_filters :: "job_filter \<Rightarrow> string list \<times> jsval list" where
  "Job_findAll_filters searchFilter =
     (let searchQueries = []; values = []; idx = (1::nat);
          (searchQueries, values, idx) =
            (case title searchFilter of
               Some t \<Rightarrow>
                 if t \<noteq> []
                 then (searchQueries @ [''title ILIKE $'' @ decimal idx],
                       values @ [JStr (''%'' @ t @ ''%'')],
                       idx + 1)
                 else (searchQueries, values, idx)
             | None \<Rightarrow> (searchQueries, values, idx));
          (searchQueries, values, idx) =
            (case minSalary searchFilter of
               Some m \<Rightarrow>
                 if m \<noteq> 0
                 then (searchQueries @ [''salary >= $'' @ decimal idx],
                       values @ [JNum m],
                       idx + 1)
                 else (searchQueries, values, idx)
             | None \<Rightarrow> (searchQueries, values, idx));
          searchQueries =
            (case hasEquity searchFilter of
               Some e \<Rightarrow> if e then searchQueries @ [''equity > 0''] else searchQueries
             | None \<Rightarrow> searchQueries)
      in (searchQueries, values))"

text \<open>
  What the template literal puts after the \<open>FROM\<close> part: \<open>searchQueries\<close> has become
  the string \<open>"WHERE " + ...\<close> if it held a fragment, and is still the empty array
  otherwise, which a template literal renders as the empty string.
\<close>

definition whereClause :: "string list \<Rightarrow> string" where
  "whereClause searchQueries =
     (if length searchQueries \<noteq> 0 then ''WHERE '' @ join '' AND '' searchQueries else [])"

definition Job_findAll_sql :: "job_filter \<Rightarrow> string \<times> jsval list" where
  "Job_findAll_sql searchFilter =
     (let (searchQueries, values) = Job_findAll_filters searchFilter
      in (whereClause searchQueries, values))"

text \<open>\<open>Technology.findAll\<close> has the single key \<open>name\<close>.\<close>

definition Technology_findAll_filters :: "string option \<Rightarrow> string list \<times> jsval list" where
  "Technology_findAll_filters name =
     (let searchQueries = []; values = []; idx = (1::nat);
          (searchQueries, values, idx) =
            (case name of
               Some n \<Rightarrow>
                 if n \<noteq> []
                 then (searchQueries @ [''name ILIKE $'' @ decimal idx],
                       values @ [JStr (''%'' @ n @ ''%'')],
                       idx + 1)
                 else (searchQueries, values, idx)
             | None \<Rightarrow> (searchQueries, values, idx))
      in (searchQueries, values))"

definition Technology_findAll_sql :: "string option \<Rightarrow> string \<times> jsval list" where
  "Technology_findAll_sql name =
     (let (searchQueries, values) = Technology_findAll_filters name
      in (whereClause searchQueries, values))"

text \<open>
  JavaScript truthiness of a filter value, for stating what the guards let through.
\<close>

definition truthy_str :: "string option \<Rightarrow> bool" where
  "truthy_str v = (case v of None \<Rightarrow> False | Some s \<Rightarrow> s \<noteq> [])"

definition truthy_num :: "int option \<Rightarrow> bool" where
  "truthy_num v = (case v of None \<Rightarrow> False | Some n \<Rightarrow> n \<noteq> 0)"

definition truthy_bool :: "bool option \<Rightarrow> bool" where
  "truthy_bool v = (case v of None \<Rightarrow> False | Some b \<Rightarrow> b)"

text \<open>
  The filter with no key, and the two counts the specification speaks of: the keys
  present in a filter, and the present keys that carry a value into the parameters.
\<close>

definition noFilter :: job_filter where
  "noFilter = \<lparr>title = None, minSalary = None, hasEquity = None\<rparr>"

definition count_if :: "bool \<Rightarrow> nat" where
  "count_if b = (if b then 1 else 0)"

definition present_keys :: "job_filter \<Rightarrow> nat" where
  "present_keys f =
     count_if (title f \<noteq> None) + count_if (minSalary f \<noteq> None) + count_if (hasEquity f \<noteq> None)"

definition present_value_keys :: "job_filter \<Rightarrow> nat" where
  "present_value_keys f = count_if (title f \<noteq> None) + count_if (minSalary f \<noteq> None)"

section \<open>The database\<close>

text \<open>
  The tables the statements of the models read and write, each as the list of its rows
  in storage order, with the columns the statements name.
\<close>

record user_row =
  u_username :: string
  u_password :: string
  u_first_name :: string
  u_last_name :: string
  u_email :: string
  u_is_admin :: bool

record company_row =
  c_handle :: string
  c_name :: string
  c_description :: string
  c_num_employees :: "int option"
  c_logo_url :: "string option"

record job_row =
  j_id :: int
  j_title :: string
  j_salary :: "int option"
  j_equity :: "string option"
  j_company_handle :: string

record tech_row =
  t_id :: int
  t_name :: string

record database =
  users :: "user_row list"
  companies :: "company_row list"
  jobs :: "job_row list"
  technologies :: "tech_row list"
  requirements :: "(int \<times> int) list"
  techskills :: "(string \<times> int) list"
  applications :: "(string \<times> int) list"

text \<open>
  Every call of \<open>db.query\<close> is recorded, in order, with the statement's kind and its
  parameters, next to the database it ran on.
\<close>

datatype stmt =
    SelectUser string
  | SelectApplications string
  | SelectTechskills string
  | SelectJobs string "jsval list"
  | SelectJob int
  | SelectCompany string
  | SelectRequirements int
  | SelectJobId int
  | SelectTechnologyId int
  | SelectRequirement int int
  | InsertRequirement int int

record world =
  db :: database
  trace :: "stmt list"

definition query :: "stmt \<Rightarrow> world \<Rightarrow> world" where
  "query s w = w\<lparr>trace := trace w @ [s]\<rparr>"

text \<open>\<open>rows[0]\<close>, which is \<open>undefined\<close> on an empty result.\<close>

definition first_row :: "'a list \<Rightarrow> 'a option" where
  "first_row rows = (case rows of [] \<Rightarrow> None | r # _ \<Rightarrow> Some r)"


section \<open>models/user.js: User.get\<close>

record tech_ref =
  techId :: int
  techName :: string

record user_detail =
  username :: string
  firstName :: string
  lastName :: string
  email :: string
  isAdmin :: bool
  applideJobs :: "int list"
  techSkills :: "tech_ref list"

text \<open>
  The join of \<open>techskills\<close> with \<open>technologies\<close> on the technology id, restricted to one
  user.
\<close>

definition skill_rows :: "database \<Rightarrow> string \<Rightarrow> tech_ref list" where
  "skill_rows d uname =
     concat (map (\<lambda>sk. map (\<lambda>t. \<lparr>techId = t_id t, techName = t_name t\<rparr>)
                            (filter (\<lambda>t. t_id t = snd sk) (technologies d)))
                 (filter (\<lambda>sk. fst sk = uname) (techskills d)))"

definition User_get :: "string \<Rightarrow> world \<Rightarrow> (error + user_detail) \<times> world" where
  "User_get uname w =
     (let w1 = query (SelectUser uname) w;
          userRes = filter (\<lambda>u. u_username u = uname) (users (db w1))
      in case first_row userRes of
           None \<Rightarrow> (Inl (NotFoundError (''No user: '' @ uname)), w1)
         | Some user \<Rightarrow>
             let w2 = query (SelectApplications uname) w1;
                 jobsRes = map snd (filter (\<lambda>a. fst a = uname) (applications (db w2)));
                 w3 = query (SelectTechskills uname) w2;
                 skillRes = skill_rows (db w3) uname
             in (Inr \<lparr>username = u_username user, firstName = u_first_name user,
                      lastName = u_last_name user, email = u_email user,
                      isAdmin = u_is_admin user,
                      applideJobs = jobsRes, techSkills = skillRes\<rparr>, w3))"


section \<open>models/job.js\<close>

record job_listing =
  jl_id :: int
  jl_title :: string
  jl_salary :: "int option"
  jl_equity :: "string option"
  jl_companyHandle :: string
  jl_companyName :: "string option"

record job_detail =
  jd_id :: int
  jd_title :: string
  jd_salary :: "int option"
  jd_equity :: "string option"
  jd_company :: "company_row option"
  jd_requirements :: "tech_ref list"

text \<open>
  \<open>jobs LEFT JOIN companies\<close>: one row for each company of the job's handle, and one row
  with a null company name when there is none.
\<close>

definition listing :: "job_row \<Rightarrow> string option \<Rightarrow> job_listing" where
  "listing j cname =
     \<lparr>jl_id = j_id j, jl_title = j_title j, jl_salary = j_salary j, jl_equity = j_equity j,
      jl_companyHandle = j_company_handle j, jl_companyName = cname\<rparr>"

definition jobs_left_join :: "database \<Rightarrow> job_listing list" where
  "jobs_left_join d =
     concat (map (\<lambda>j. case filter (\<lambda>c. c_handle c = j_company_handle j) (companies d) of
                          [] \<Rightarrow> [listing j None]
                        | cs \<Rightarrow> map (\<lambda>c. listing j (Some (c_name c))) cs)
                 (jobs d))"

text \<open>
  \<open>Job.findAll\<close>. How the store evaluates a rendered \<open>WHERE\<close> clause with its parameters
  on a row is the store's business and comes as the parameter \<open>sat\<close>; a statement
  without the clause returns every row of the join.
\<close>

definition Job_findAll ::
  "(string \<Rightarrow> jsval list \<Rightarrow> job_listing \<Rightarrow> bool) \<Rightarrow> job_filter \<Rightarrow> world
     \<Rightarrow> job_listing list \<times> world" where
  "Job_findAll sat searchFilter w =
     (let (searchQueries, values) = Job_findAll_sql searchFilter;
          w1 = query (SelectJobs searchQueries values) w;
          joined = jobs_left_join (db w1)
      in (if searchQueries = [] then joined else filter (sat searchQueries values) joined, w1))"

text \<open>The join of \<open>requirements\<close> with \<open>technologies\<close>, restricted to one job.\<close>

definition requirement_rows :: "database \<Rightarrow> int \<Rightarrow> tech_ref list" where
  "requirement_rows d jid =
     concat (map (\<lambda>r. map (\<lambda>t. \<lparr>techId = snd r, techName = t_name t\<rparr>)
                           (filter (\<lambda>t. t_id t = snd r) (technologies d)))
                 (filter (\<lambda>r. fst r = jid) (requirements d)))"

definition Job_get :: "int \<Rightarrow> world \<Rightarrow> (error + job_detail) \<times> world" where
  "Job_get jid w =
     (let w1 = query (SelectJob jid) w;
          jobRes = filter (\<lambda>j. j_id j = jid) (jobs (db w1))
      in case first_row jobRes of
           None \<Rightarrow> (Inl (NotFoundError (''No job: '' @ render_int jid)), w1)
         | Some job \<Rightarrow>
             let w2 = query (SelectCompany (j_company_handle job)) w1;
                 companiesRes = filter (\<lambda>c. c_handle c = j_company_handle job) (companies (db w2));
                 w3 = query (SelectRequirements jid) w2;
                 requirementsRes = requirement_rows (db w3) jid
             in (Inr \<lparr>jd_id = j_id job, jd_title = j_title job, jd_salary = j_salary job,
                      jd_equity = j_equity job, jd_company = first_row companiesRes,
                      jd_requirements = requirementsRes\<rparr>, w3))"






section \<open>routes/users.js: GET /:username/matched-jobs\<close>

text \<open>
  The loop over \<open>allJobs\<close>: each posting is fetched again with \<open>Job.get\<close>, which may
  throw, and pushed onto \<open>matchedJobs\<close> when \<open>isSubset\<close> accepts it.
\<close>

fun matched_loop ::
  "job_listing list \<Rightarrow> int list \<Rightarrow> job_detail list \<Rightarrow> world
     \<Rightarrow> (error + job_detail list) \<times> world" where
  "matched_loop [] userTechSkillIds matchedJobs w = (Inr matchedJobs, w)"
| "matched_loop (j # js) userTechSkillIds matchedJobs w =
     (case Job_get (jl_id j) w of
        (Inl err, w') \<Rightarrow> (Inl err, w')
      | (Inr job, w') \<Rightarrow>
          let requiredSkillIds = map techId (jd_requirements job)
          in matched_loop js userTechSkillIds
               (if isSubset requiredSkillIds userTechSkillIds then matchedJobs @ [job]
                else matchedJobs) w')"

definition matched_jobs ::
  "(string \<Rightarrow> jsval list \<Rightarrow> job_listing \<Rightarrow> bool) \<Rightarrow> string \<Rightarrow> world
     \<Rightarrow> (error + job_detail list) \<times> world" where
  "matched_jobs sat uname w =
     (let matchedJobs = [] in
      case User_get uname w of
        (Inl err, w1) \<Rightarrow> (Inl err, w1)
      | (Inr user, w1) \<Rightarrow>
          let userTechSkillIds = map techId (techSkills user);
              (allJobs, w2) = Job_findAll sat noFilter w1
          in matched_loop allJobs userTechSkillIds matchedJobs w2)"

text \<open>The statements that read postings.\<close>

fun reads_postings :: "stmt \<Rightarrow> bool" where
  "reads_postings (SelectJobs q vs) = True"
| "reads_postings (SelectJob i) = True"
| "reads_postings (SelectJobId i) = True"
| "reads_postings (SelectRequirements i) = True"
| "reads_postings (SelectRequirement i t) = True"
| "reads_postings s = False"

section \<open>middleware/auth.js: ensureAdminOrCorrectUser\<close>

text \<open>The payload of a verified token, as \<open>createToken\<close> signs it.\<close>

record token_payload =
  tok_username :: string
  tok_isAdmin :: bool

text \<open>
  Modelled from the spec: \<open>middleware/auth.js\<close>, which defines
  \<open>ensureAdminOrCorrectUser\<close>, is not among the sources; \<open>routes/users.js\<close> only puts
  it in front of its handlers. The definition follows the policy \<open>ElevatedOrOwner\<close> of
  the specification's section 4.3: allow when the role flag is elevated, or when the
  identity's subject identifier equals the resource reference bound to the route, by
  equality of the two strings; on deny, signal \<open>Unauthenticated\<close> if no identity was
  presented and \<open>Forbidden\<close> if an identity was presented but is insufficient. The first
  argument is the identity the token verifier left, if any; the second is the route's
  \<open>:username\<close>.
\<close>

datatype denial = Unauthenticated | Forbidden

definition ensureAdminOrCorrectUser :: "token_payload option \<Rightarrow> string \<Rightarrow> denial + unit" where
  "ensureAdminOrCorrectUser user uname =
     (case user of
        None \<Rightarrow> Inl Unauthenticated
      | Some u \<Rightarrow>
          if tok_isAdmin u \<or> tok_username u = uname then Inr ()
          else Inl Forbidden)"


section \<open>An example database\<close>

text \<open>
  A cut of the fixture the route tests run on: user \<open>u1\<close> with the skills 1 and 2, and
  three jobs of company \<open>c1\<close>, the first requiring the technologies 1 and 2, the second
  1, 2 and 3, the third none.
\<close>

definition example_db :: database where
  "example_db =
     \<lparr>users = [\<lparr>u_username = ''u1'', u_password = ''x'', u_first_name = ''U1F'',
                 u_last_name = ''U1L'', u_email = ''u1@email.com'', u_is_admin = False\<rparr>],
      companies = [\<lparr>c_handle = ''c1'', c_name = ''C1'', c_description = ''Desc1'',
                     c_num_employees = Some 1, c_logo_url = Some ''http://c1.img''\<rparr>],
      jobs = [\<lparr>j_id = 1, j_title = ''J1'', j_salary = Some 1, j_equity = Some ''0.1'',
                j_company_handle = ''c1''\<rparr>,
              \<lparr>j_id = 2, j_title = ''J2'', j_salary = Some 2, j_equity = Some ''0.2'',
                j_company_handle = ''c1''\<rparr>,
              \<lparr>j_id = 3, j_title = ''J3'', j_salary = Some 3, j_equity = None,
                j_company_handle = ''c1''\<rparr>],
      technologies = [\<lparr>t_id = 1, t_name = ''tech1''\<rparr>, \<lparr>t_id = 2, t_name = ''tech2''\<rparr>,
                      \<lparr>t_id = 3, t_name = ''tech3''\<rparr>],
      requirements = [(1, 1), (1, 2), (2, 1), (2, 2), (2, 3)],
      techskills = [(''u1'', 1), (''u1'', 2)],
      applications = []\<rparr>"

definition example_world :: world where
  "example_world = \<lparr>db = example_db, trace = []\<rparr>"

definition example_user :: user_detail where
  "example_user =
     \<lparr>username = ''u1'', firstName = ''U1F'', lastName = ''U1L'', email = ''u1@email.com'',
      isAdmin = False, applideJobs = [],
      techSkills = [\<lparr>techId = 1, techName = ''tech1''\<rparr>, \<lparr>techId = 2, techName = ''tech2''\<rparr>]\<rparr>"

text \<open>A store that lets every row through a \<open>WHERE\<close> clause; the examples have no clause.\<close>

definition sat_all :: "string \<Rightarrow> jsval list \<Rightarrow> job_listing \<Rightarrow> bool" where
  "sat_all q vs l = True"


section \<open>Properties of the subset matcher\<close>

lemma indexOf_lower: "- 1 \<le> indexOf xs x"
  by (induction xs) (auto simp: Let_def)

lemma indexOf_absent: "indexOf xs x = - 1 \<longleftrightarrow> x \<notin> set xs"
proof (induction xs)
  case Nil
  show ?case by simp
next
  case (Cons y ys)
  have "indexOf ys x + 1 \<noteq> - 1"
    using indexOf_lower [of ys x] by arith
  with Cons show ?case by (auto simp: Let_def)
qed

lemma isSubset_loop_iff: "isSubset_loop arr1 arr2 \<longleftrightarrow> set arr1 \<subseteq> set arr2"
  by (induction arr1) (auto simp: indexOf_absent)

text \<open>
  Claim C1, as the code has it. \<open>isSubset\<close> tests the second array for emptiness first,
  so an empty requirement list is matched by every skill list that is not empty, and by
  no empty one.
\<close>

theorem isSubset_empty_requirements:
  "arr2 \<noteq> [] \<Longrightarrow> isSubset [] arr2 = True"
  by (simp add: isSubset_def)

theorem isSubset_empty_requirements_witness:
  "[1, 2] \<noteq> ([] :: int list) \<and> isSubset [] [1, 2] = True"
  using isSubset_empty_requirements [of "[1, 2]"] by simp

text \<open>
  Claim C1 as the specification words it fails when the skill list is empty too:
  \<open>isSubset([], [])\<close> is false, as the helper's own test expects.
\<close>

theorem isSubset_empty_empty_counterexample:
  "isSubset [] [] = False"
  by (simp add: isSubset_def)

text \<open>
  Claim C2. For a requirement list that is not empty, \<open>isSubset\<close> answers true exactly
  when every required identifier occurs among the skills; in particular it answers
  false against the empty skill list.
\<close>

theorem isSubset_nonempty_requirements:
  "arr1 \<noteq> [] \<Longrightarrow>
     (isSubset arr1 arr2 \<longleftrightarrow> (\<forall>r \<in> set arr1. r \<in> set arr2)) \<and> isSubset arr1 [] = False"
  by (cases arr1) (auto simp: isSubset_def isSubset_loop_iff)

theorem isSubset_nonempty_requirements_witness:
  "[0, 1] \<noteq> ([] :: int list)
   \<and> (isSubset [0, 1] [0, 1, 2] \<longleftrightarrow> (\<forall>r \<in> set [0, 1]. r \<in> set [0, 1, 2 :: int]))
   \<and> isSubset [0, 1] [] = False"
  using isSubset_nonempty_requirements [of "[0, 1]" "[0, 1, 2]"] by simp


section \<open>Properties of sqlForPartialUpdate\<close>

lemma decimal_1: "decimal (Suc 0) = ''1''"
  by (subst decimal.simps) (simp add: Let_def digit_def)

lemma decimal_2: "decimal (Suc (Suc 0)) = ''2''"
  by (subst decimal.simps) (simp add: Let_def digit_def)




text \<open>
  Claim C6. An update set without fields is refused with the \<open>BadRequestError\<close>
  "No data", whatever the name table; nothing else is returned.
\<close>

theorem sqlForPartialUpdate_empty:
  "sqlForPartialUpdate [] jsToSql = Inl (BadRequestError ''No data'')"
  by (simp add: sqlForPartialUpdate_def)






section \<open>Properties of the search filters\<close>

lemma Job_filters_form:
  "Job_findAll_filters f =
     ((if truthy_str (title f) then [''title ILIKE $1''] else [])
        @ (if truthy_num (minSalary f)
           then [''salary >= $'' @ decimal (1 + count_if (truthy_str (title f)))] else [])
        @ (if truthy_bool (hasEquity f) then [''equity > 0''] else []),
      (if truthy_str (title f) then [JStr (''%'' @ the (title f) @ ''%'')] else [])
        @ (if truthy_num (minSalary f) then [JNum (the (minSalary f))] else []))"
proof -
  have t: "(case title f of
              Some t \<Rightarrow> if t \<noteq> [] then ([] @ [''title ILIKE $'' @ decimal 1], [] @ [JStr (''%'' @ t @ ''%'')], 1 + 1)
                        else ([], [], 1::nat)
            | None \<Rightarrow> ([], [], 1)) =
           (if truthy_str (title f) then [''title ILIKE $1''] else [],
            if truthy_str (title f) then [JStr (''%'' @ the (title f) @ ''%'')] else [],
            1 + count_if (truthy_str (title f)))"
    by (cases "title f") (simp_all add: truthy_str_def count_if_def decimal_1)
  have m: "\<And>sq vs idx. (case minSalary f of
              Some m \<Rightarrow> if m \<noteq> 0 then (sq @ [''salary >= $'' @ decimal idx], vs @ [JNum m], idx + 1)
                        else (sq, vs, idx)
            | None \<Rightarrow> (sq, vs, idx)) =
           (sq @ (if truthy_num (minSalary f) then [''salary >= $'' @ decimal idx] else []),
            vs @ (if truthy_num (minSalary f) then [JNum (the (minSalary f))] else []),
            idx + count_if (truthy_num (minSalary f)))"
    by (cases "minSalary f") (simp_all add: truthy_num_def count_if_def)
  have e: "\<And>sq. (case hasEquity f of
              Some e \<Rightarrow> if e then sq @ [''equity > 0''] else sq
            | None \<Rightarrow> sq) =
           sq @ (if truthy_bool (hasEquity f) then [''equity > 0''] else [])"
    by (cases "hasEquity f") (simp_all add: truthy_bool_def)
  show ?thesis
    unfolding Job_findAll_filters_def Let_def t m e by simp
qed

lemma Technology_filters_form:
  "Technology_findAll_filters name =
       (if truthy_str name then [''name ILIKE $1''] else [],
        if truthy_str name then [JStr (''%'' @ the name @ ''%'')] else [])"
  by (cases name) (simp_all add: Technology_findAll_filters_def truthy_str_def decimal_1)

lemma count_if_length: "length (if b then [x] else []) = count_if b"
  by (simp add: count_if_def)

text \<open>
  Claim C3, as the code has it. Each key is guarded by a truthiness test, so a key
  contributes its fragment exactly when its value is truthy: a title that is not
  empty, a minimum salary that is not zero, \<open>hasEquity\<close> being \<open>true\<close>. The fragments
  come in the fixed order title, salary, equity, the placeholders are numbered from 1
  in that order, a clause that is not empty is \<open>WHERE\<close> followed by the fragments
  joined with \<open>AND\<close>, and the parameters are those of the truthy title and minimum
  salary; the equity fragment has none. \<open>Technology.findAll\<close> does the same with its
  single key.
\<close>

theorem findAll_filters_truthy:
  "Job_findAll_filters f =
     ((if truthy_str (title f) then [''title ILIKE $1''] else [])
        @ (if truthy_num (minSalary f)
           then [''salary >= $'' @ decimal (1 + count_if (truthy_str (title f)))] else [])
        @ (if truthy_bool (hasEquity f) then [''equity > 0''] else []),
      (if truthy_str (title f) then [JStr (''%'' @ the (title f) @ ''%'')] else [])
        @ (if truthy_num (minSalary f) then [JNum (the (minSalary f))] else []))
   \<and> length (fst (Job_findAll_filters f)) =
       count_if (truthy_str (title f)) + count_if (truthy_num (minSalary f))
         + count_if (truthy_bool (hasEquity f))
   \<and> length (snd (Job_findAll_filters f)) =
       count_if (truthy_str (title f)) + count_if (truthy_num (minSalary f))
   \<and> Job_findAll_sql f =
       (if fst (Job_findAll_filters f) = [] then []
        else ''WHERE '' @ join '' AND '' (fst (Job_findAll_filters f)),
        snd (Job_findAll_filters f))
   \<and> Technology_findAll_filters name =
       (if truthy_str name then [''name ILIKE $1''] else [],
        if truthy_str name then [JStr (''%'' @ the name @ ''%'')] else [])
   \<and> Technology_findAll_sql name =
       (if fst (Technology_findAll_filters name) = [] then []
        else ''WHERE '' @ join '' AND '' (fst (Technology_findAll_filters name)),
        snd (Technology_findAll_filters name))"
proof (intro conjI)
  show "length (fst (Job_findAll_filters f)) =
       count_if (truthy_str (title f)) + count_if (truthy_num (minSalary f))
         + count_if (truthy_bool (hasEquity f))"
    unfolding Job_filters_form fst_conv length_append count_if_length by simp
  show "length (snd (Job_findAll_filters f)) =
       count_if (truthy_str (title f)) + count_if (truthy_num (minSalary f))"
    unfolding Job_filters_form snd_conv length_append count_if_length by simp
  show "Job_findAll_sql f =
       (if fst (Job_findAll_filters f) = [] then []
        else ''WHERE '' @ join '' AND '' (fst (Job_findAll_filters f)),
        snd (Job_findAll_filters f))"
    by (simp add: Job_findAll_sql_def whereClause_def split_beta)
  show "Technology_findAll_sql name =
       (if fst (Technology_findAll_filters name) = [] then []
        else ''WHERE '' @ join '' AND '' (fst (Technology_findAll_filters name)),
        snd (Technology_findAll_filters name))"
    by (simp add: Technology_findAll_sql_def whereClause_def split_beta)
qed (rule Job_filters_form Technology_filters_form)+

text \<open>The filter of the route test "works: filtering on 2 filters".\<close>

theorem findAll_filters_truthy_witness:
  "Job_findAll_sql \<lparr>title = Some ''3'', minSalary = Some 2, hasEquity = None\<rparr> =
     (''WHERE title ILIKE $1 AND salary >= $2'', [JStr ''%3%'', JNum 2])"
  using findAll_filters_truthy [of "\<lparr>title = Some ''3'', minSalary = Some 2, hasEquity = None\<rparr>" None]
  by (simp add: truthy_str_def truthy_num_def truthy_bool_def count_if_def decimal_2)

text \<open>
  Claim C3 as the specification words it fails on present keys with a falsy value: the
  filter \<open>{title: "", minSalary: 0, hasEquity: false}\<close> has three keys present, two of
  them value-bearing, and yields no fragment and no parameter.
\<close>

theorem findAll_filters_falsy_counterexample:
  "present_keys \<lparr>title = Some [], minSalary = Some 0, hasEquity = Some False\<rparr> = 3
   \<and> length (fst (Job_findAll_filters
        \<lparr>title = Some [], minSalary = Some 0, hasEquity = Some False\<rparr>)) = 0
   \<and> present_value_keys \<lparr>title = Some [], minSalary = Some 0, hasEquity = Some False\<rparr> = 2
   \<and> length (snd (Job_findAll_filters
        \<lparr>title = Some [], minSalary = Some 0, hasEquity = Some False\<rparr>)) = 0"
  by (simp add: present_keys_def present_value_keys_def count_if_def Job_findAll_filters_def)

text \<open>
  Claim C8. Without any filter key both compilers produce the empty clause (not
  \<open>WHERE\<close>, not \<open>WHERE true\<close>) and no parameter, and the statement of \<open>Job.findAll\<close>
  returns every row of the join of jobs with companies.
\<close>

theorem findAll_no_filter:
  "Job_findAll_sql noFilter = ([], [])
   \<and> Technology_findAll_sql None = ([], [])
   \<and> fst (Job_findAll sat noFilter w) = jobs_left_join (db w)"
  by (simp add: Job_findAll_def Job_findAll_sql_def Job_findAll_filters_def noFilter_def
        Technology_findAll_sql_def Technology_findAll_filters_def whereClause_def query_def)

section \<open>Properties of the models and of the matched-jobs route\<close>

lemma db_query: "db (query s w) = db w"
  by (simp add: query_def)


lemma first_row_None: "first_row rows = None \<longleftrightarrow> rows = []"
  by (cases rows) (simp_all add: first_row_def)

lemma User_get_db: "db (snd (User_get uname w)) = db w"
  by (simp add: User_get_def Let_def db_query split: option.splits)

lemma User_get_missing:
  assumes "\<not> (\<exists>u \<in> set (users (db w)). u_username u = uname)"
  shows "User_get uname w = (Inl (NotFoundError (''No user: '' @ uname)), query (SelectUser uname) w)"
proof -
  have "filter (\<lambda>u. u_username u = uname) (users (db w)) = []"
    using assms by (simp add: filter_empty_conv)
  then show ?thesis
    by (simp add: User_get_def Let_def db_query first_row_def)
qed

lemma Job_get_db: "db (snd (Job_get jid w)) = db w"
  by (simp add: Job_get_def Let_def db_query split: option.splits)

lemma Job_get_cong: "db w = db w' \<Longrightarrow> fst (Job_get jid w) = fst (Job_get jid w')"
  by (simp add: Job_get_def Let_def db_query split: option.splits)

lemma Job_get_found:
  assumes "\<exists>j \<in> set (jobs (db w)). j_id j = jid"
  shows "\<exists>job. fst (Job_get jid w) = Inr job"
proof -
  have "filter (\<lambda>j. j_id j = jid) (jobs (db w)) \<noteq> []"
    using assms by (simp add: filter_empty_conv)
  then have "first_row (filter (\<lambda>j. j_id j = jid) (jobs (db w))) \<noteq> None"
    by (simp add: first_row_None)
  then show ?thesis
    by (auto simp: Job_get_def Let_def db_query split: option.splits)
qed

lemma Job_findAll_db: "db (snd (Job_findAll sat f w)) = db w"
  by (simp add: Job_findAll_def Let_def db_query split_beta)

lemma Job_findAll_cong:
  "db w = db w' \<Longrightarrow> fst (Job_findAll sat f w) = fst (Job_findAll sat f w')"
  by (simp add: Job_findAll_def Let_def db_query split_beta)

lemma jobs_left_join_ids:
  assumes "l \<in> set (jobs_left_join d)"
  shows "\<exists>j \<in> set (jobs d). j_id j = jl_id l"
proof -
  from assms obtain j where j: "j \<in> set (jobs d)"
    and l: "l \<in> set (case filter (\<lambda>c. c_handle c = j_company_handle j) (companies d) of
                        [] \<Rightarrow> [listing j None]
                      | cs \<Rightarrow> map (\<lambda>c. listing j (Some (c_name c))) cs)"
    by (auto simp: jobs_left_join_def)
  have "jl_id l = j_id j"
    using l by (cases "filter (\<lambda>c. c_handle c = j_company_handle j) (companies d)")
      (auto simp: listing_def)
  with j show ?thesis by auto
qed

lemma Job_findAll_ids:
  "l \<in> set (fst (Job_findAll sat f w)) \<Longrightarrow> \<exists>j \<in> set (jobs (db w)). j_id j = jl_id l"
  by (auto simp: Job_findAll_def Let_def db_query split_beta dest: jobs_left_join_ids split: if_splits)

lemma matched_loop_db: "db (snd (matched_loop js skills acc w)) = db w"
proof (induction js arbitrary: acc w)
  case Nil
  show ?case by simp
next
  case (Cons j js)
  obtain r w' where g: "Job_get (jl_id j) w = (r, w')"
    by (cases "Job_get (jl_id j) w")
  then have "db w' = db w"
    using Job_get_db [of "jl_id j" w] by simp
  with g Cons show ?case
    by (cases r) (simp_all add: Let_def)
qed

lemma matched_loop_filter:
  assumes "\<forall>l \<in> set js. \<exists>j \<in> set (jobs (db w)). j_id j = jl_id l" and "db w = db w0"
  shows "\<exists>enriched.
           list_all2 (\<lambda>l job. fst (Job_get (jl_id l) w0) = Inr job) js enriched
           \<and> fst (matched_loop js skills acc w) =
               Inr (acc @ filter (\<lambda>job. isSubset (map techId (jd_requirements job)) skills) enriched)"
  using assms
proof (induction js arbitrary: acc w)
  case Nil
  show ?case by simp
next
  case (Cons l js)
  from Cons.prems have "\<exists>j \<in> set (jobs (db w)). j_id j = jl_id l"
    by simp
  then obtain job where job: "fst (Job_get (jl_id l) w) = Inr job"
    using Job_get_found by blast
  then obtain w' where g: "Job_get (jl_id l) w = (Inr job, w')"
    by (cases "Job_get (jl_id l) w") simp
  have w': "db w' = db w"
    using Job_get_db [of "jl_id l" w] g by simp
  have job0: "fst (Job_get (jl_id l) w0) = Inr job"
    using job Job_get_cong [OF Cons.prems(2), of "jl_id l"] by simp
  let ?P = "\<lambda>job. isSubset (map techId (jd_requirements job)) skills"
  let ?acc = "if ?P job then acc @ [job] else acc"
  from Cons.prems w' have "\<forall>l \<in> set js. \<exists>j \<in> set (jobs (db w')). j_id j = jl_id l" "db w' = db w0"
    by simp_all
  from Cons.IH [OF this, of ?acc] obtain enriched where
    e: "list_all2 (\<lambda>l job. fst (Job_get (jl_id l) w0) = Inr job) js enriched"
       "fst (matched_loop js skills ?acc w') = Inr (?acc @ filter ?P enriched)"
    by blast
  have "list_all2 (\<lambda>l job. fst (Job_get (jl_id l) w0) = Inr job) (l # js) (job # enriched)"
    using e(1) job0 by simp
  moreover have "fst (matched_loop (l # js) skills acc w) = Inr (acc @ filter ?P (job # enriched))"
    using g e(2) by (simp add: Let_def)
  ultimately show ?case by blast
qed

text \<open>
  Claim C4. For a user that exists, the route fetches every posting of the unfiltered
  list again (the list \<open>enriched\<close>, position by position), and answers with exactly
  those enriched postings, in the order of the list, whose requirement identifiers
  \<open>isSubset\<close> accepts against the user's skill identifiers: the answer is the filter of
  the enriched list by the matcher, hence a subsequence of it.
\<close>

theorem matched_jobs_filter:
  assumes "fst (User_get uname w) = Inr user"
  shows "\<exists>enriched.
           list_all2 (\<lambda>l job. fst (Job_get (jl_id l) w) = Inr job)
             (fst (Job_findAll sat noFilter w)) enriched
           \<and> fst (matched_jobs sat uname w) =
               Inr (filter (\<lambda>job. isSubset (map techId (jd_requirements job))
                                          (map techId (techSkills user))) enriched)
           \<and> subseq (filter (\<lambda>job. isSubset (map techId (jd_requirements job))
                                          (map techId (techSkills user))) enriched) enriched"
proof -
  obtain w1 where u: "User_get uname w = (Inr user, w1)"
    using assms by (cases "User_get uname w") simp
  have w1: "db w1 = db w"
    using User_get_db [of uname w] u by simp
  obtain allJobs w2 where f: "Job_findAll sat noFilter w1 = (allJobs, w2)"
    by (cases "Job_findAll sat noFilter w1")
  have w2: "db w2 = db w"
    using Job_findAll_db [of sat noFilter w1] f w1 by simp
  have allJobs: "allJobs = fst (Job_findAll sat noFilter w)"
    using Job_findAll_cong [OF w1, of sat noFilter] f by simp
  have "\<forall>l \<in> set allJobs. \<exists>j \<in> set (jobs (db w2)). j_id j = jl_id l"
    using Job_findAll_ids [of _ sat noFilter w] allJobs w2 by simp
  from matched_loop_filter [OF this w2, of "map techId (techSkills user)" "[]"]
  obtain enriched where
    e: "list_all2 (\<lambda>l job. fst (Job_get (jl_id l) w) = Inr job) allJobs enriched"
       "fst (matched_loop allJobs (map techId (techSkills user)) [] w2) =
          Inr (filter (\<lambda>job. isSubset (map techId (jd_requirements job))
                                     (map techId (techSkills user))) enriched)"
    by auto
  have "fst (matched_jobs sat uname w) =
          fst (matched_loop allJobs (map techId (techSkills user)) [] w2)"
    by (simp add: matched_jobs_def u f Let_def)
  with e allJobs show ?thesis
    by (metis subseq_filter_left)
qed


text \<open>On the example database user \<open>u1\<close> is matched with the jobs 1 and 3.\<close>

lemma example_user_get: "fst (User_get ''u1'' example_world) = Inr example_user"
  by code_simp

lemma example_matched: "map_sum id (map jd_id) (fst (matched_jobs sat_all ''u1'' example_world)) = Inr [1, 3]"
  by code_simp

theorem matched_jobs_filter_witness:
  "fst (User_get ''u1'' example_world) = Inr example_user
   \<and> (\<exists>enriched.
         list_all2 (\<lambda>l job. fst (Job_get (jl_id l) example_world) = Inr job)
           (fst (Job_findAll sat_all noFilter example_world)) enriched
         \<and> fst (matched_jobs sat_all ''u1'' example_world) =
             Inr (filter (\<lambda>job. isSubset (map techId (jd_requirements job))
                                        (map techId (techSkills example_user))) enriched)
         \<and> subseq (filter (\<lambda>job. isSubset (map techId (jd_requirements job))
                                        (map techId (techSkills example_user))) enriched) enriched)
   \<and> map_sum id (map jd_id) (fst (matched_jobs sat_all ''u1'' example_world)) = Inr [1, 3]"
  using example_user_get example_matched
    matched_jobs_filter [OF example_user_get, of sat_all]
  by blast


text \<open>
  Claim C9. When no user row has the username, the route ends with the
  \<open>NotFoundError\<close> of \<open>User.get\<close> after the single statement that looked the user up:
  no statement that reads postings has run. On every path the database is left as it
  was found.
\<close>

theorem matched_jobs_unknown_user:
  "(\<not> (\<exists>u \<in> set (users (db w)). u_username u = uname) \<longrightarrow>
      matched_jobs sat uname w =
        (Inl (NotFoundError (''No user: '' @ uname)), w\<lparr>trace := trace w @ [SelectUser uname]\<rparr>)
      \<and> filter reads_postings (trace (snd (matched_jobs sat uname w))) =
          filter reads_postings (trace w))
   \<and> db (snd (matched_jobs sat uname w)) = db w"
proof (intro conjI impI)
  assume "\<not> (\<exists>u \<in> set (users (db w)). u_username u = uname)"
  then show m: "matched_jobs sat uname w =
        (Inl (NotFoundError (''No user: '' @ uname)), w\<lparr>trace := trace w @ [SelectUser uname]\<rparr>)"
    by (simp add: matched_jobs_def User_get_missing query_def)
  show "filter reads_postings (trace (snd (matched_jobs sat uname w))) =
          filter reads_postings (trace w)"
    by (simp add: m)
next
  obtain r w1 where u: "User_get uname w = (r, w1)"
    by (cases "User_get uname w")
  have w1: "db w1 = db w"
    using User_get_db [of uname w] u by simp
  show "db (snd (matched_jobs sat uname w)) = db w"
  proof (cases r)
    case (Inl e)
    with u w1 show ?thesis by (simp add: matched_jobs_def)
  next
    case (Inr user)
    obtain allJobs w2 where f: "Job_findAll sat noFilter w1 = (allJobs, w2)"
      by (cases "Job_findAll sat noFilter w1")
    have "db w2 = db w"
      using Job_findAll_db [of sat noFilter w1] f w1 by simp
    with Inr u f show ?thesis
      by (simp add: matched_jobs_def Let_def matched_loop_db)
  qed
qed

theorem matched_jobs_unknown_user_witness:
  "\<not> (\<exists>u \<in> set (users (db example_world)). u_username u = ''xx'')
   \<and> matched_jobs sat_all ''xx'' example_world =
        (Inl (NotFoundError ''No user: xx''), \<lparr>db = example_db, trace = [SelectUser ''xx'']\<rparr>)
   \<and> filter reads_postings (trace (snd (matched_jobs sat_all ''xx'' example_world))) = []
   \<and> db (snd (matched_jobs sat_all ''xx'' example_world)) = example_db"
  using matched_jobs_unknown_user [of example_world "''xx''" sat_all]
  by (simp add: example_world_def example_db_def)


section \<open>Properties of Job.requireTech\<close>













section \<open>Properties of ensureAdminOrCorrectUser\<close>

text \<open>
  Claim C5. An elevated identity is allowed whatever the route's username; a standard
  identity is allowed when its username equals the route's, character for character;
  a standard identity with another username is denied as \<open>Forbidden\<close>; a request
  without identity is denied as \<open>Unauthenticated\<close>.
\<close>

theorem ensureAdminOrCorrectUser_policy:
  "(tok_isAdmin u \<longrightarrow> ensureAdminOrCorrectUser (Some u) uname = Inr ())
   \<and> (\<not> tok_isAdmin u \<and> tok_username u = uname \<longrightarrow>
        ensureAdminOrCorrectUser (Some u) uname = Inr ())
   \<and> (\<not> tok_isAdmin u \<and> tok_username u \<noteq> uname \<longrightarrow>
        ensureAdminOrCorrectUser (Some u) uname = Inl Forbidden)
   \<and> ensureAdminOrCorrectUser None uname = Inl Unauthenticated"
  by (simp add: ensureAdminOrCorrectUser_def)

text \<open>
  An administrator on another user's route, a user on the own route, the same user on
  a route whose name differs in case only and on a route whose name the own one is a
  prefix of, and a request without identity.
\<close>

theorem ensureAdminOrCorrectUser_policy_witness:
  "tok_isAdmin \<lparr>tok_username = ''admin'', tok_isAdmin = True\<rparr>
   \<and> ensureAdminOrCorrectUser (Some \<lparr>tok_username = ''admin'', tok_isAdmin = True\<rparr>) ''u1'' = Inr ()
   \<and> \<not> tok_isAdmin \<lparr>tok_username = ''u1'', tok_isAdmin = False\<rparr>
   \<and> ensureAdminOrCorrectUser (Some \<lparr>tok_username = ''u1'', tok_isAdmin = False\<rparr>) ''u1'' = Inr ()
   \<and> tok_username \<lparr>tok_username = ''u1'', tok_isAdmin = False\<rparr> \<noteq> ''U1''
   \<and> ensureAdminOrCorrectUser (Some \<lparr>tok_username = ''u1'', tok_isAdmin = False\<rparr>) ''U1''
       = Inl Forbidden
   \<and> tok_username \<lparr>tok_username = ''u1'', tok_isAdmin = False\<rparr> \<noteq> ''u10''
   \<and> ensureAdminOrCorrectUser (Some \<lparr>tok_username = ''u1'', tok_isAdmin = False\<rparr>) ''u10''
       = Inl Forbidden
   \<and> ensureAdminOrCorrectUser None ''u1'' = Inl Unauthenticated"
  using ensureAdminOrCorrectUser_policy [of "\<lparr>tok_username = ''admin'', tok_isAdmin = True\<rparr>" "''u1''"]
    ensureAdminOrCorrectUser_policy [of "\<lparr>tok_username = ''u1'', tok_isAdmin = False\<rparr>" "''u1''"]
    ensureAdminOrCorrectUser_policy [of "\<lparr>tok_username = ''u1'', tok_isAdmin = False\<rparr>" "''U1''"]
    ensureAdminOrCorrectUser_policy [of "\<lparr>tok_username = ''u1'', tok_isAdmin = False\<rparr>" "''u10''"]
  by simp

end
